theory Spec2Isabelle
  imports Complex_Main "HOL-Library.Multiset"
begin

section \<open>JavaScript primitives used by the engine\<close>

text \<open>
  A finite JavaScript number is modelled as an exact rational (\<open>rat\<close>): the fields of
  positions and orders are parsed from JSON and are therefore finite. Arithmetic on them
  is exact, so IEEE rounding and overflow are idealised away. Where the source can
  produce a non-finite value (the unguarded division of \<open>computeLimitPrice\<close>) the
  type \<open>jsnum\<close> below adds \<open>Infinity\<close>, \<open>-Infinity\<close> and \<open>NaN\<close>.

  A field of type \<open>T | null\<close> is a \<open>T option\<close> (\<open>None\<close> is \<open>null\<close>); an optional
  field \<open>f?: T\<close> is a \<open>T option\<close> (\<open>None\<close> is absent); an optional field
  \<open>f?: T | null\<close> is a \<open>T option option\<close> (\<open>None\<close> absent, \<open>Some None\<close> null).
\<close>

subsection \<open>Number to string\<close>

definition digit_char :: "nat \<Rightarrow> char" where
  "digit_char n = ''0123456789'' ! n"

function nat_digits :: "nat \<Rightarrow> string" where
  "nat_digits n =
     (if n < 10 then [digit_char n]
      else nat_digits (n div 10) @ [digit_char (n mod 10)])"
  by pat_completeness auto
termination
  by (relation "measure id") auto

declare nat_digits.simps [simp del]

text \<open>Digits after the decimal point of a fraction \<open>0 \<le> r < 1\<close>, at most \<open>k\<close> of them.\<close>

primrec frac_digits :: "nat \<Rightarrow> rat \<Rightarrow> string" where
  "frac_digits 0 r = []"
| "frac_digits (Suc k) r =
     (if r = 0 then []
      else digit_char (nat \<lfloor>r * 10\<rfloor>) # frac_digits k (r * 10 - of_int \<lfloor>r * 10\<rfloor>))"

text \<open>
  \<open>Number::toString\<close> (radix 10) for a finite number: an optional minus sign, the
  integer part, and the fractional digits when there are any. This is what ECMAScript
  prints for magnitudes in \<open>[10^-6, 10^21)\<close> whose decimal expansion is short (every
  integer-valued number there, and prices such as \<open>192.5\<close>); longer expansions are cut
  after 20 fractional digits.
\<close>

definition number_to_string :: "rat \<Rightarrow> string" where
  "number_to_string x =
     (let a = \<bar>x\<bar>; ip = \<lfloor>a\<rfloor>; fr = a - of_int ip
      in (if x < 0 then ''-'' else '''') @ nat_digits (nat ip) @
         (if fr = 0 then '''' else ''.'' @ frac_digits 20 fr))"

text \<open>A template literal \<open>`${v}`\<close> on a \<open>number | null\<close> prints \<open>null\<close> as "null".\<close>

definition template_num :: "rat option \<Rightarrow> string" where
  "template_num v = (case v of None \<Rightarrow> ''null'' | Some x \<Rightarrow> number_to_string x)"

text \<open>
  \<open>x.toFixed(2)\<close>: the integer \<open>n\<close> with \<open>n / 100\<close> nearest to \<open>|x|\<close> (the larger one
  on a tie), printed with two decimals, after a minus sign when \<open>x < 0\<close>.
\<close>

definition toFixed2 :: "rat \<Rightarrow> string" where
  "toFixed2 x =
     (let n = nat \<lfloor>\<bar>x\<bar> * 100 + 1 / 2\<rfloor>
      in (if x < 0 then ''-'' else '''') @ nat_digits (n div 100) @ ''.'' @
         [digit_char ((n mod 100) div 10), digit_char (n mod 10)])"

text \<open>\<open>Math.round\<close>: the nearest integer, a tie going up.\<close>

definition math_round :: "rat \<Rightarrow> rat" where
  "math_round x = of_int \<lfloor>x + 1 / 2\<rfloor>"

subsection \<open>Strings\<close>

text \<open>The relational operator \<open><\<close> on strings: lexicographic on code units.\<close>

fun js_string_less :: "string \<Rightarrow> string \<Rightarrow> bool" where
  "js_string_less [] [] = False"
| "js_string_less [] (y # ys) = True"
| "js_string_less (x # xs) [] = False"
| "js_string_less (x # xs) (y # ys) =
     (if x = y then js_string_less xs ys else (of_char x :: nat) < of_char y)"

text \<open>\<open>toUpperCase\<close> and \<open>toLowerCase\<close> on the letters of ASCII; other characters are
  left as they are.\<close>

definition to_upper_char :: "char \<Rightarrow> char" where
  "to_upper_char c =
     (let n = (of_char c :: nat) in if 97 \<le> n \<and> n \<le> 122 then char_of (n - 32) else c)"

definition to_lower_char :: "char \<Rightarrow> char" where
  "to_lower_char c =
     (let n = (of_char c :: nat) in if 65 \<le> n \<and> n \<le> 90 then char_of (n + 32) else c)"

subsection \<open>Array.prototype.sort\<close>

text \<open>
  \<open>sort\<close> is stable. An element is inserted in front of the first element it does not
  follow, so equal elements keep their order.
\<close>

fun insort_by :: "('a \<Rightarrow> 'a \<Rightarrow> bool) \<Rightarrow> 'a \<Rightarrow> 'a list \<Rightarrow> 'a list" where
  "insort_by le x [] = [x]"
| "insort_by le x (y # ys) = (if le x y then x # y # ys else y # insort_by le x ys)"

definition sort_by :: "('a \<Rightarrow> 'a \<Rightarrow> bool) \<Rightarrow> 'a list \<Rightarrow> 'a list" where
  "sort_by le xs = foldr (insort_by le) xs []"

text \<open>
  \<open>sort()\<close> without a comparator on an array of \<open>number | null\<close>: every element is
  converted to a string (\<open>null\<close> to "null") and the strings are compared by code units.
\<close>

definition sort_default :: "rat option list \<Rightarrow> rat option list" where
  "sort_default xs =
     sort_by (\<lambda>x y. \<not> js_string_less (template_num y) (template_num x)) xs"

text \<open>\<open>sort((a, b) => a - b)\<close> on numbers.\<close>

definition numeric_sort :: "rat list \<Rightarrow> rat list" where
  "numeric_sort xs = sort_by (\<lambda>a b. a - b \<le> 0) xs"

subsection \<open>Numbers with Infinity and NaN\<close>

datatype jsnum = Fin rat | PInf | NInf | NaN

fun is_finite :: "jsnum \<Rightarrow> bool" where
  "is_finite (Fin x) = True"
| "is_finite PInf = False"
| "is_finite NInf = False"
| "is_finite NaN = False"

text \<open>The sign of a value that is not \<open>NaN\<close>: \<open>-1\<close>, \<open>0\<close> or \<open>1\<close>.\<close>

fun jsign :: "jsnum \<Rightarrow> int" where
  "jsign (Fin x) = (if x < 0 then - 1 else if x = 0 then 0 else 1)"
| "jsign PInf = 1"
| "jsign NInf = - 1"
| "jsign NaN = 0"

definition inf_of_sign :: "int \<Rightarrow> jsnum" where
  "inf_of_sign s = (if s < 0 then NInf else PInf)"

fun jabs :: "jsnum \<Rightarrow> jsnum" where
  "jabs (Fin x) = Fin \<bar>x\<bar>"
| "jabs PInf = PInf"
| "jabs NInf = PInf"
| "jabs NaN = NaN"

fun jneg :: "jsnum \<Rightarrow> jsnum" where
  "jneg (Fin x) = Fin (- x)"
| "jneg PInf = NInf"
| "jneg NInf = PInf"
| "jneg NaN = NaN"

fun jadd :: "jsnum \<Rightarrow> jsnum \<Rightarrow> jsnum" where
  "jadd NaN b = NaN"
| "jadd a NaN = NaN"
| "jadd (Fin x) (Fin y) = Fin (x + y)"
| "jadd (Fin x) b = b"
| "jadd a (Fin y) = a"
| "jadd PInf PInf = PInf"
| "jadd NInf NInf = NInf"
| "jadd PInf NInf = NaN"
| "jadd NInf PInf = NaN"

definition jsub :: "jsnum \<Rightarrow> jsnum \<Rightarrow> jsnum" where
  "jsub a b = jadd a (jneg b)"

fun jmul :: "jsnum \<Rightarrow> jsnum \<Rightarrow> jsnum" where
  "jmul NaN b = NaN"
| "jmul a NaN = NaN"
| "jmul (Fin x) (Fin y) = Fin (x * y)"
| "jmul a b = (if jsign a = 0 \<or> jsign b = 0 then NaN else inf_of_sign (jsign a * jsign b))"

text \<open>
  Division. A zero divisor is the positive zero, which is what \<open>Math.abs(quantity) * 100\<close>
  yields for a zero quantity: a non-zero dividend gives an infinity of its own sign,
  \<open>0 / 0\<close> gives \<open>NaN\<close>.
\<close>

fun jdiv :: "jsnum \<Rightarrow> jsnum \<Rightarrow> jsnum" where
  "jdiv NaN b = NaN"
| "jdiv a NaN = NaN"
| "jdiv (Fin x) (Fin y) =
     (if y \<noteq> 0 then Fin (x / y) else if x = 0 then NaN else inf_of_sign (jsign (Fin x)))"
| "jdiv (Fin x) b = Fin 0"
| "jdiv a (Fin y) = inf_of_sign (if y < 0 then - jsign a else jsign a)"
| "jdiv a b = NaN"

text \<open>\<open>a >= b\<close>; false when either side is \<open>NaN\<close>.\<close>

fun jge :: "jsnum \<Rightarrow> jsnum \<Rightarrow> bool" where
  "jge NaN b = False"
| "jge a NaN = False"
| "jge (Fin x) (Fin y) = (x \<ge> y)"
| "jge PInf b = True"
| "jge a NInf = True"
| "jge a b = False"

fun jround :: "jsnum \<Rightarrow> jsnum" where
  "jround (Fin x) = Fin (math_round x)"
| "jround a = a"

section \<open>Data model (lib/features/etradeSlice.ts, lib/strategies.ts)\<close>

record OrderLeg =
  symbol :: string
  baseSymbol :: string
  symbolDescription :: string
  orderedQuantity :: rat
  filledQuantity :: rat
  orderAction :: string
  strikePrice :: "rat option"
  callPut :: "string option"
  expiryYear :: "rat option"
  expiryMonth :: "rat option"
  expiryDay :: "rat option"
  bid :: "rat option"
  ask :: "rat option"
  lastprice :: "rat option"
  estimatedCommission :: "rat option"

record Order =
  orderId :: "rat option"
  orderType :: string
  limitPrice :: rat
  stopPrice :: "rat option"
  priceType :: string
  orderTerm :: string
  marketSession :: string
  placedTime :: "rat option"
  netPrice :: "rat option"
  netBid :: "rat option"
  netAsk :: "rat option"
  status :: string
  allOrNone :: bool
  baseSymbol :: string
  legs :: "OrderLeg list"

text \<open>
  \<open>Position\<close> is declared after \<open>OrderLeg\<close> and \<open>Order\<close>, so an unqualified field
  name shared with them (\<open>symbol\<close>, \<open>baseSymbol\<close>, \<open>strikePrice\<close>, \<open>callPut\<close>,
  \<open>expiryYear\<close>, ...) is the field of \<open>Position\<close>; the fields of order legs and orders
  are written qualified (\<open>OrderLeg.symbol\<close>, \<open>Order.legs\<close>).
\<close>

record Position =
  symbol :: string
  baseSymbol :: string
  description :: string
  type :: string
  strikePrice :: "rat option"
  callPut :: "string option"
  quantity :: rat
  pricePaid :: rat
  marketValue :: rat
  totalCost :: rat
  dayGain :: rat
  dayGainPct :: rat
  totalGain :: rat
  totalGainPct :: rat
  lastPrice :: rat
  daysGain :: rat
  pctOfPortfolio :: rat
  costPerShare :: rat
  dte :: "rat option"
  delta :: "rat option"
  gamma :: "rat option"
  theta :: "rat option"
  vega :: "rat option"
  rho :: "rat option"
  iv :: "rat option"
  intrinsicValue :: "rat option"
  premium :: "rat option"
  openInterest :: "rat option"
  dateAcquired :: "rat option"
  expiryYear :: "rat option"
  expiryMonth :: "rat option"
  expiryDay :: "rat option"

text \<open>
  \<open>DisplayRow = Position & {...}\<close>. The fields \<open>_legs\<close>, \<open>_posDelta\<close>, ... of the
  source are \<open>u_legs\<close>, \<open>u_posDelta\<close>, ... here (an identifier cannot start with an
  underscore).
\<close>

record DisplayRow = Position +
  isStrategy :: "bool option"
  strategyName :: "string option"
  spec :: "string option"
  legCount :: "nat option"
  strikeWidth :: "rat option"
  highStrike :: "rat option"
  exitLabel :: "string option option"
  exitOrderId :: "rat option option"
  u_legs :: "Position list option"
  u_posDelta :: "rat option option"
  u_posGamma :: "rat option option"
  u_posTheta :: "rat option option"
  u_posVega :: "rat option option"
  u_posRho :: "rat option option"

text \<open>Reading a property of \<open>undefined\<close> (\<open>legs[0].quantity\<close> on an empty array) throws.\<close>

datatype error = TypeError

section \<open>Strategy classification and grouping (lib/strategies.ts)\<close>

definition oppositeSign :: "Position list \<Rightarrow> bool" where
  "oppositeSign ls = (sgn (quantity (ls ! 0)) \<noteq> sgn (quantity (ls ! 1)))"

definition identifyStrategyName :: "Position list \<Rightarrow> string option" where
  "identifyStrategyName ls =
     (let calls = filter (\<lambda>l. callPut l = Some ''CALL'') ls;
          puts = filter (\<lambda>l. callPut l = Some ''PUT'') ls
      in if length ls = 2 \<and> length puts = 2 \<and> oppositeSign ls then Some ''Put Vertical''
         else if length ls = 2 \<and> length calls = 2 \<and> oppositeSign ls then Some ''Call Vertical''
         else if length ls = 2 \<and> length calls = 1 \<and> length puts = 1 \<and> \<not> oppositeSign ls then
           (let strikes = map strikePrice ls
            in if strikes ! 0 = strikes ! 1 then Some ''Straddle'' else Some ''Strangle'')
         else if length ls = 4 \<and> length calls = 2 \<and> length puts = 2 then
           (let callStrikes = sort_default (map strikePrice calls);
                putStrikes = sort_default (map strikePrice puts);
                sameStrikes = (callStrikes ! 0 = putStrikes ! 0 \<and> callStrikes ! 1 = putStrikes ! 1)
            in if sameStrikes then Some ''Box Spread''
               else (let sharedMiddle =
                           (callStrikes ! 0 = putStrikes ! 1 \<or> putStrikes ! 0 = callStrikes ! 1)
                     in if sharedMiddle then Some ''Iron Butterfly'' else Some ''Iron Condor''))
         else None)"

definition singleLegName :: "Position \<Rightarrow> string" where
  "singleLegName pos =
     (if type pos = ''OPTN'' then (if callPut pos = Some ''PUT'' then ''Put'' else ''Call'')
      else if type pos = ''EQ'' then ''Equity''
      else map to_upper_char (take 1 (type pos)) @ map to_lower_char (drop 1 (type pos)))"

definition strategySpec :: "string \<Rightarrow> rat \<Rightarrow> rat \<Rightarrow> string" where
  "strategySpec name hi width =
     (if name = ''Box Spread''
      then ''$'' @ number_to_string (math_round ((width * 100) / 1000)) @ ''k''
      else if name = ''Put Vertical'' \<or> name = ''Call Vertical''
      then number_to_string hi @ ''/'' @ number_to_string width
      else [])"

definition singleLegSpec :: "Position \<Rightarrow> string" where
  "singleLegSpec pos =
     (case strikePrice pos of
        Some k \<Rightarrow> (if type pos = ''OPTN'' then number_to_string k else [])
      | None \<Rightarrow> [])"

definition sumGreek :: "(Position \<Rightarrow> rat option) \<Rightarrow> Position list \<Rightarrow> rat option" where
  "sumGreek field ls =
     foldl (\<lambda>acc l.
              case field l of
                None \<Rightarrow> acc
              | Some g \<Rightarrow>
                  (let multiplier = (if type l = ''OPTN'' then 100 else 1);
                       val = g * quantity l * multiplier
                   in Some ((case acc of None \<Rightarrow> 0 | Some a \<Rightarrow> a) + val)))
           None ls"

text \<open>The quantity of a strategy row: \<open>qty\<close> in \<open>buildStrategyRow\<close>.\<close>

definition strategyQty :: "Position \<Rightarrow> string \<Rightarrow> rat \<Rightarrow> rat" where
  "strategyQty l0 name cost =
     (let absQty = \<bar>quantity l0\<bar>;
          signFromCost =
            (name = ''Put Vertical'' \<or> name = ''Call Vertical'' \<or> name = ''Box Spread'')
      in if signFromCost then (if cost \<ge> 0 then absQty else - absQty) else absQty)"

fun buildStrategyRow :: "Position list \<Rightarrow> string \<Rightarrow> error + DisplayRow" where
  "buildStrategyRow [] name = Inl TypeError"
| "buildStrategyRow (l0 # rest) name =
     (let ls = l0 # rest;
          mv = foldl (\<lambda>s l. s + marketValue l) 0 ls;
          dg = foldl (\<lambda>s l. s + daysGain l) 0 ls;
          tg = foldl (\<lambda>s l. s + totalGain l) 0 ls;
          tc = foldl (\<lambda>s l. s + totalCost l) 0 ls;
          qty = strategyQty l0 name tc;
          prevMarketValue = mv - dg;
          dgPct = (if prevMarketValue \<noteq> 0 then (dg / \<bar>prevMarketValue\<bar>) * 100 else 0);
          tgPct = (if tc \<noteq> 0 then (tg / \<bar>tc\<bar>) * 100 else 0);
          strikes = numeric_sort (map (\<lambda>l. case strikePrice l of None \<Rightarrow> 0 | Some k \<Rightarrow> k) ls);
          hi = last strikes;
          width = hi - hd strikes
      in Inr (Position.extend
           (l0\<lparr>symbol := number_to_string qty @ '' x '' @ name,
               quantity := qty,
               marketValue := mv,
               daysGain := dg,
               dayGainPct := dgPct,
               totalGain := tg,
               totalGainPct := tgPct,
               totalCost := tc,
               delta := None, gamma := None, theta := None, vega := None, rho := None,
               iv := None\<rparr>)
           (DisplayRow.fields (Some True) (Some name) (Some (strategySpec name hi width))
              (Some (length ls)) (Some width) (Some hi) None None (Some ls)
              (Some (sumGreek delta ls)) (Some (sumGreek gamma ls)) (Some (sumGreek theta ls))
              (Some (sumGreek vega ls)) (Some (sumGreek rho ls)))))"

text \<open>
  A single-leg row:
  \<open>{ ...pos, strategyName: singleLegName(pos), spec: singleLegSpec(pos), _legs: [pos] }\<close>.
\<close>

definition singleRow :: "Position \<Rightarrow> DisplayRow" where
  "singleRow pos =
     Position.extend pos
       (DisplayRow.fields None (Some (singleLegName pos)) (Some (singleLegSpec pos))
          None None None None None (Some [pos]) None None None None None)"

fun tryPairings ::
  "Position list \<Rightarrow> (nat \<times> nat \<times> nat \<times> nat) list \<Rightarrow>
     (Position list \<times> string \<times> Position list \<times> string) option" where
  "tryPairings ls [] = None"
| "tryPairings ls ((a, b, c, d) # ps) =
     (let pair1 = [ls ! a, ls ! b];
          pair2 = [ls ! c, ls ! d]
      in case (identifyStrategyName pair1, identifyStrategyName pair2) of
           (Some name1, Some name2) \<Rightarrow> Some (pair1, name1, pair2, name2)
         | _ \<Rightarrow> tryPairings ls ps)"

definition trySplitIntoPairs ::
  "Position list \<Rightarrow> (Position list \<times> string \<times> Position list \<times> string) option" where
  "trySplitIntoPairs ls =
     (if length ls \<noteq> 4 then None
      else tryPairings ls [(0, 1, 2, 3), (0, 2, 1, 3), (0, 3, 1, 2)])"

text \<open>The key of the \<open>Map\<close> that buckets the option legs.\<close>

definition groupKey :: "Position \<Rightarrow> string" where
  "groupKey pos =
     baseSymbol pos @ ''|'' @ template_num (dte pos) @ ''|'' @ template_num (dateAcquired pos)
       @ ''|'' @ number_to_string \<bar>quantity pos\<bar>"

text \<open>
  A \<open>Map\<close> iterates in insertion order of its keys: an association list.
  \<open>map_push k p m\<close> is \<open>if (!m.has(k)) m.set(k, []); m.get(k).push(p)\<close>.
\<close>

fun map_push ::
  "string \<Rightarrow> Position \<Rightarrow> (string \<times> Position list) list \<Rightarrow> (string \<times> Position list) list" where
  "map_push k p [] = [(k, [p])]"
| "map_push k p ((k', ps) # m) =
     (if k' = k then (k', ps @ [p]) # m else (k', ps) # map_push k p m)"

text \<open>
  The body of the first loop of \<open>groupIntoStrategies\<close>, on the pair
  \<open>(strategyMap, standalones)\<close>.
\<close>

definition groupStep ::
  "(string \<times> Position list) list \<times> Position list \<Rightarrow> Position \<Rightarrow>
     (string \<times> Position list) list \<times> Position list" where
  "groupStep st pos =
     (case st of (strategyMap, standalones) \<Rightarrow>
        if type pos \<noteq> ''OPTN'' then (strategyMap, standalones @ [pos])
        else (map_push (groupKey pos) pos strategyMap, standalones))"

text \<open>The body of the loop over \<open>strategyMap.values()\<close>: the rows pushed for one bucket.\<close>

definition bucketRows :: "Position list \<Rightarrow> error + DisplayRow list" where
  "bucketRows ls =
     (if length ls = 1 then Inr [singleRow (ls ! 0)]
      else case identifyStrategyName ls of
             Some name \<Rightarrow>
               (case buildStrategyRow ls name of Inl e \<Rightarrow> Inl e | Inr r \<Rightarrow> Inr [r])
           | None \<Rightarrow>
               (case trySplitIntoPairs ls of
                  Some (pair1, name1, pair2, name2) \<Rightarrow>
                    (case buildStrategyRow pair1 name1 of
                       Inl e \<Rightarrow> Inl e
                     | Inr r1 \<Rightarrow>
                         (case buildStrategyRow pair2 name2 of
                            Inl e \<Rightarrow> Inl e
                          | Inr r2 \<Rightarrow> Inr [r1, r2]))
                | None \<Rightarrow> Inr (map singleRow ls)))"

fun bucketsRows :: "Position list list \<Rightarrow> error + DisplayRow list" where
  "bucketsRows [] = Inr []"
| "bucketsRows (ls # bs) =
     (case bucketRows ls of
        Inl e \<Rightarrow> Inl e
      | Inr rs \<Rightarrow> (case bucketsRows bs of Inl e \<Rightarrow> Inl e | Inr rest \<Rightarrow> Inr (rs @ rest)))"

definition groupIntoStrategies :: "Position list \<Rightarrow> error + DisplayRow list" where
  "groupIntoStrategies positions =
     (case foldl groupStep ([], []) positions of
        (strategyMap, standalones) \<Rightarrow>
          (case bucketsRows (map snd strategyMap) of
             Inl e \<Rightarrow> Inl e
           | Inr rs \<Rightarrow> Inr (map singleRow standalones @ rs)))"

section \<open>Order reconciliation (components/app/positions-grid.tsx)\<close>

text \<open>
  What the reconciler reads from its surroundings: the collation of
  \<open>String.prototype.localeCompare\<close> (negative, zero or positive), the time value of
  \<open>new Date(year, monthIndex, day)\<close> in the local time zone, and the time value of the
  local midnight of the current day (\<open>new Date()\<close> after \<open>setHours(0, 0, 0, 0)\<close>), both
  in milliseconds.
\<close>

record env =
  localeCompare :: "string \<Rightarrow> string \<Rightarrow> int"
  dateTime :: "rat \<Rightarrow> rat \<Rightarrow> rat \<Rightarrow> rat"
  todayMidnight :: rat

definition EXIT_ACTIONS_LONG :: "string list" where
  "EXIT_ACTIONS_LONG = [''SELL'', ''SELL_CLOSE'']"

definition EXIT_ACTIONS_SHORT :: "string list" where
  "EXIT_ACTIONS_SHORT = [''BUY'', ''BUY_CLOSE'', ''BUY_TO_COVER'']"

text \<open>\<open>!v\<close> on a \<open>number | null\<close> holds for \<open>null\<close> and for \<open>0\<close>.\<close>

definition computeOrderDte :: "env \<Rightarrow> OrderLeg \<Rightarrow> rat option" where
  "computeOrderDte e leg =
     (case (OrderLeg.expiryYear leg, OrderLeg.expiryMonth leg, OrderLeg.expiryDay leg) of
        (Some y, Some m, Some d) \<Rightarrow>
          if y = 0 \<or> m = 0 \<or> d = 0 then None
          else Some (math_round ((dateTime e y (m - 1) d - todayMidnight e)
                                  / (1000 * 60 * 60 * 24)))
      | _ \<Rightarrow> None)"

definition legKey :: "string \<Rightarrow> rat \<Rightarrow> rat option \<Rightarrow> rat option \<Rightarrow> string" where
  "legKey s qty strike d =
     s @ ''|'' @ number_to_string qty @ ''|''
       @ (case strike of None \<Rightarrow> [] | Some k \<Rightarrow> number_to_string k) @ ''|''
       @ (case d of None \<Rightarrow> [] | Some n \<Rightarrow> number_to_string n)"

definition isExitLeg :: "env \<Rightarrow> OrderLeg \<times> Position \<Rightarrow> bool" where
  "isExitLeg e op =
     (case op of (oLeg, pLeg) \<Rightarrow>
        (let keyMatch =
               (legKey (OrderLeg.symbol oLeg) (orderedQuantity oLeg) (OrderLeg.strikePrice oLeg)
                  (computeOrderDte e oLeg)
                = legKey (symbol pLeg) \<bar>quantity pLeg\<bar> (strikePrice pLeg) (dte pLeg))
         in if \<not> keyMatch then False
            else (let exitActions =
                        (if quantity pLeg > 0 then EXIT_ACTIONS_LONG else EXIT_ACTIONS_SHORT)
                  in orderAction oLeg \<in> set exitActions)))"

text \<open>
  \<open>sortedOrder.every((oLeg, i) => ... sortedPos[i] ...)\<close>: the two arrays have the same
  length, so the legs are compared index by index.
\<close>

definition isExitOrder :: "env \<Rightarrow> Position list \<Rightarrow> Order \<Rightarrow> bool" where
  "isExitOrder e posLegs order =
     (if length (Order.legs order) \<noteq> length posLegs then False
      else (let sortedOrder =
                  sort_by (\<lambda>a b. localeCompare e (OrderLeg.symbol a) (OrderLeg.symbol b) \<le> 0)
                    (Order.legs order);
                sortedPos =
                  sort_by (\<lambda>a b. localeCompare e (symbol a) (symbol b) \<le> 0) posLegs
            in list_all (isExitLeg e) (zip sortedOrder sortedPos)))"

definition computeExitLabel :: "Order \<Rightarrow> DisplayRow \<Rightarrow> string" where
  "computeExitLabel order row =
     (let mult = (if type row = ''OPTN'' then 100 else 1);
          exitValue = limitPrice order * \<bar>quantity row\<bar> * mult;
          cost = \<bar>totalCost row\<bar>
      in if cost = 0 then ''@'' @ toFixed2 (limitPrice order)
         else (let sign = (if totalCost row \<ge> 0 then 1 else - 1);
                   profit = sign * (exitValue - cost);
                   pct = math_round ((profit / cost) * 100)
               in number_to_string pct @ ''% @'' @ toFixed2 (limitPrice order)))"

record MatchResult =
  rows :: "DisplayRow list"
  unmatchedOrders :: "Order list"

fun findIndex :: "('a \<Rightarrow> bool) \<Rightarrow> 'a list \<Rightarrow> nat option" where
  "findIndex P [] = None"
| "findIndex P (x # xs) = (if P x then Some 0 else map_option Suc (findIndex P xs))"

text \<open>
  The callback of \<open>rows.map\<close>, on the pair of the rows mapped so far and the array
  \<open>remaining\<close> that it splices.
\<close>

definition matchStep ::
  "env \<Rightarrow> DisplayRow list \<times> Order list \<Rightarrow> DisplayRow \<Rightarrow> DisplayRow list \<times> Order list" where
  "matchStep e st row =
     (case st of (matched, remaining) \<Rightarrow>
        (case u_legs row of
           None \<Rightarrow> (matched @ [row], remaining)
         | Some ls \<Rightarrow>
             (case findIndex (isExitOrder e ls) remaining of
                None \<Rightarrow> (matched @ [row], remaining)
              | Some idx \<Rightarrow>
                  (let order = remaining ! idx
                   in (matched @
                         [row\<lparr>exitLabel := Some (Some (computeExitLabel order row)),
                              exitOrderId := Some (orderId order)\<rparr>],
                       take idx remaining @ drop (Suc idx) remaining)))))"

definition matchOrdersToRows :: "env \<Rightarrow> DisplayRow list \<Rightarrow> Order list \<Rightarrow> MatchResult" where
  "matchOrdersToRows e rs symbolOrders =
     (case foldl (matchStep e) ([], symbolOrders) rs of
        (matched, remaining) \<Rightarrow> \<lparr>rows = matched, unmatchedOrders = remaining\<rparr>)"

section \<open>Exit price (components/app/exit-cell.tsx)\<close>

definition computeLimitPrice :: "jsnum \<Rightarrow> jsnum \<Rightarrow> jsnum \<Rightarrow> jsnum" where
  "computeLimitPrice cost qty profitPct =
     (let mult = Fin 100;
          absCost = jabs cost;
          exitValue =
            (if jge cost (Fin 0) then jmul absCost (jadd (Fin 1) (jdiv profitPct (Fin 100)))
             else jmul absCost (jsub (Fin 1) (jdiv profitPct (Fin 100))));
          raw = jdiv exitValue (jmul (jabs qty) mult)
      in jdiv (jround (jmul raw (Fin 20))) (Fin 20))"

section \<open>Notions used to state the properties\<close>

text \<open>The legs a row stands for, and the number of legs it counts for (1 for a single-leg
  row, which has no \<open>legCount\<close>).\<close>

definition rowLegs :: "DisplayRow \<Rightarrow> Position list" where
  "rowLegs r = (case u_legs r of None \<Rightarrow> [] | Some ls \<Rightarrow> ls)"

definition rowLegCount :: "DisplayRow \<Rightarrow> nat" where
  "rowLegCount r = (case legCount r of None \<Rightarrow> 1 | Some n \<Rightarrow> n)"

text \<open>The distinct elements of a list, in the order of their first occurrence.\<close>

definition first_seen :: "'a list \<Rightarrow> 'a list" where
  "first_seen xs = rev (remdups (rev xs))"

text \<open>
  The buckets of a list of option legs: one entry for every grouping key, in the order in
  which the keys are first seen, with the legs of that key in input order.
\<close>

definition keyedBuckets :: "Position list \<Rightarrow> (string \<times> Position list) list" where
  "keyedBuckets ps =
     map (\<lambda>k. (k, filter (\<lambda>p. groupKey p = k) ps)) (first_seen (map groupKey ps))"

section \<open>Example data\<close>

text \<open>The default position of the test suite (\<open>makePosition\<close> in strategies.test.ts).\<close>

definition makePosition :: Position where
  "makePosition =
     \<lparr>symbol = ''AAPL'', baseSymbol = ''AAPL'', description = ''AAPL'', type = ''OPTN'',
      strikePrice = Some 200, callPut = Some ''CALL'', quantity = 1, pricePaid = 5,
      marketValue = 500, totalCost = 500, dayGain = 10, dayGainPct = 2, totalGain = 50,
      totalGainPct = 10, lastPrice = 11 / 2, daysGain = 10, pctOfPortfolio = 5,
      costPerShare = 5, dte = Some 30, delta = Some (1 / 2), gamma = Some (3 / 100),
      theta = Some (- (1 / 20)), vega = Some (3 / 20), rho = Some (1 / 100), iv = Some 25,
      intrinsicValue = Some 2, premium = Some 3, openInterest = Some 1000,
      dateAcquired = Some 1700000000, expiryYear = None, expiryMonth = None,
      expiryDay = None\<rparr>"

definition optionLeg :: "string \<Rightarrow> rat \<Rightarrow> rat \<Rightarrow> rat \<Rightarrow> Position" where
  "optionLeg cp strike qty cost =
     makePosition\<lparr>callPut := Some cp, strikePrice := Some strike, quantity := qty,
       totalCost := cost\<rparr>"

text \<open>An iron butterfly on the strikes 95 / 100 / 105.\<close>

definition butterflyLegs :: "Position list" where
  "butterflyLegs =
     [optionLeg ''PUT'' 95 1 100, optionLeg ''PUT'' 100 (- 1) (- 300),
      optionLeg ''CALL'' 100 (- 1) (- 300), optionLeg ''CALL'' 105 1 100]"

text \<open>Two put verticals in one bucket (test "splits unrecognized 4-leg into two 2-leg
  strategies").\<close>

definition fourPuts :: "Position list" where
  "fourPuts =
     [optionLeg ''PUT'' 190 1 300, optionLeg ''PUT'' 200 (- 1) (- 200),
      optionLeg ''PUT'' 210 1 250, optionLeg ''PUT'' 220 (- 1) (- 150)]"

text \<open>Four long calls (test "falls back to ungrouped singles when 4-leg cannot split into
  pairs").\<close>

definition fourCalls :: "Position list" where
  "fourCalls =
     [optionLeg ''CALL'' 200 1 500, optionLeg ''CALL'' 210 1 500,
      optionLeg ''CALL'' 220 1 500, optionLeg ''CALL'' 230 1 500]"

text \<open>The credit box spread of the test suite.\<close>

definition boxLegs :: "Position list" where
  "boxLegs =
     [optionLeg ''CALL'' 190 (- 1) (- 400), optionLeg ''CALL'' 210 1 100,
      optionLeg ''PUT'' 190 1 50, optionLeg ''PUT'' 210 (- 1) (- 200)]"

text \<open>100 shares bought for 15000.\<close>

definition equityPos :: Position where
  "equityPos =
     makePosition\<lparr>type := ''EQ'', callPut := None, strikePrice := None, quantity := 100,
       totalCost := 15000, dte := None, delta := None, gamma := None, theta := None,
       vega := None, rho := None, iv := None, intrinsicValue := None, premium := None,
       openInterest := None, dateAcquired := None\<rparr>"

text \<open>The two legs of a put vertical with an equity and a call of two contracts (which
  has another grouping key) between them.\<close>

definition mixedPositions :: "Position list" where
  "mixedPositions =
     [optionLeg ''PUT'' 190 1 300, equityPos, optionLeg ''CALL'' 210 2 500,
      optionLeg ''PUT'' 200 (- 1) (- 200)]"

text \<open>A long put expiring on 18 December 2026, 46 days after 2 November 2026.\<close>

definition longPut :: Position where
  "longPut =
     makePosition\<lparr>symbol := ''AAPL261218P00190000'', callPut := Some ''PUT'',
       strikePrice := Some 190, quantity := 1, totalCost := 200, dte := Some 46,
       expiryYear := Some 2026, expiryMonth := Some 12, expiryDay := Some 18\<rparr>"

definition exampleOrderLeg :: OrderLeg where
  "exampleOrderLeg =
     \<lparr>OrderLeg.symbol = ''AAPL'', OrderLeg.baseSymbol = ''AAPL'',
      symbolDescription = ''AAPL'', orderedQuantity = 100, filledQuantity = 0,
      orderAction = ''SELL'', OrderLeg.strikePrice = None, OrderLeg.callPut = None,
      OrderLeg.expiryYear = None, OrderLeg.expiryMonth = None, OrderLeg.expiryDay = None,
      bid = None, ask = None, lastprice = None, estimatedCommission = None\<rparr>"

definition exampleOrder :: "rat \<Rightarrow> OrderLeg list \<Rightarrow> Order" where
  "exampleOrder price ls =
     \<lparr>orderId = Some 7, orderType = ''EQ'', limitPrice = price, stopPrice = None,
      priceType = ''LIMIT'', orderTerm = ''GOOD_UNTIL_CANCEL'', marketSession = ''REGULAR'',
      placedTime = None, netPrice = None, netBid = None, netAsk = None, status = ''OPEN'',
      allOrNone = False, Order.baseSymbol = ''AAPL'', Order.legs = ls\<rparr>"

text \<open>An order to sell the 100 shares at 165.\<close>

definition sellShares :: Order where
  "sellShares = exampleOrder 165 [exampleOrderLeg]"

text \<open>An order to sell the long put to close at 3.00.\<close>

definition sellPut :: Order where
  "sellPut =
     exampleOrder 3
       [exampleOrderLeg\<lparr>OrderLeg.symbol := ''AAPL261218P00190000'', orderedQuantity := 1,
          orderAction := ''SELL_CLOSE'', OrderLeg.strikePrice := Some 190,
          OrderLeg.callPut := Some ''PUT'', OrderLeg.expiryYear := Some 2026,
          OrderLeg.expiryMonth := Some 12, OrderLeg.expiryDay := Some 18\<rparr>]"

text \<open>
  A host whose time zone is UTC and whose collation orders the symbols above by code
  units. \<open>days_from_civil y m d\<close> is the number of days from 1 January 1970 to the day
  \<open>d\<close> of the month \<open>m\<close> (1 to 12) of the year \<open>y\<close> in the Gregorian calendar;
  \<open>utcEnv y m d\<close> is that host on that day.
\<close>

definition days_from_civil :: "int \<Rightarrow> int \<Rightarrow> int \<Rightarrow> int" where
  "days_from_civil y m d =
     (let y' = (if m \<le> 2 then y - 1 else y);
          era = y' div 400;
          yoe = y' - era * 400;
          doy = (153 * (if m > 2 then m - 3 else m + 9) + 2) div 5 + d - 1;
          doe = yoe * 365 + yoe div 4 - yoe div 100 + doy
      in era * 146097 + doe - 719468)"

definition utcDateTime :: "rat \<Rightarrow> rat \<Rightarrow> rat \<Rightarrow> rat" where
  "utcDateTime y monthIndex d =
     of_int (days_from_civil \<lfloor>y\<rfloor> (\<lfloor>monthIndex\<rfloor> + 1) \<lfloor>d\<rfloor>) * 86400000"

definition codeUnitCompare :: "string \<Rightarrow> string \<Rightarrow> int" where
  "codeUnitCompare a b =
     (if js_string_less a b then - 1 else if js_string_less b a then 1 else 0)"

definition utcEnv :: "rat \<Rightarrow> rat \<Rightarrow> rat \<Rightarrow> env" where
  "utcEnv y m d =
     \<lparr>localeCompare = codeUnitCompare, dateTime = utcDateTime,
      todayMidnight = utcDateTime y (m - 1) d\<rparr>"

section \<open>The exit price\<close>

lemma floor_rat_numeral [simp]:
  "\<lfloor>(numeral a :: rat) / numeral b\<rfloor> = numeral a div numeral b"
  using floor_divide_of_int_eq [of "numeral a" "numeral b", where ?'a = rat] by simp

lemma floor_rat_neg_numeral [simp]:
  "\<lfloor>- (numeral a :: rat) / numeral b\<rfloor> = - numeral a div numeral b"
  using floor_divide_of_int_eq [of "- numeral a" "numeral b", where ?'a = rat] by simp

lemma jdiv_zero_not_finite: "\<not> is_finite (jdiv a (Fin 0))"
  by (cases a) (simp_all add: inf_of_sign_def)

lemma jdiv_pos_finite_iff: "0 < y \<Longrightarrow> is_finite (jdiv a (Fin y)) = is_finite a"
  by (cases a) (simp_all add: inf_of_sign_def)

lemma jmul_pos_finite_iff: "0 < y \<Longrightarrow> is_finite (jmul a (Fin y)) = is_finite a"
  by (cases a) (simp_all add: inf_of_sign_def)

lemma jround_finite_iff: "is_finite (jround a) = is_finite a"
  by (cases a) simp_all

lemma limit_price_finite_iff:
  "is_finite (computeLimitPrice cost qty profitPct) =
     is_finite (jdiv (if jge cost (Fin 0)
                      then jmul (jabs cost) (jadd (Fin 1) (jdiv profitPct (Fin 100)))
                      else jmul (jabs cost) (jsub (Fin 1) (jdiv profitPct (Fin 100))))
                 (jmul (jabs qty) (Fin 100)))"
  by (simp add: computeLimitPrice_def Let_def jdiv_pos_finite_iff jmul_pos_finite_iff
      jround_finite_iff)

text \<open>
  C10. \<open>computeLimitPrice\<close> divides by \<open>|quantity| * 100\<close> without a zero guard:
  for a zero quantity the result is not a finite number, whatever the cost and the profit
  percentage are (finite or not); on finite arguments the result is finite exactly when
  the quantity is not zero.
\<close>

theorem computeLimitPrice_zero_quantity:
  "\<not> is_finite (computeLimitPrice cost (Fin 0) profitPct) \<and>
   (is_finite (computeLimitPrice (Fin c) (Fin q) (Fin p)) \<longleftrightarrow> q \<noteq> 0)"
proof
  show "\<not> is_finite (computeLimitPrice cost (Fin 0) profitPct)"
    by (simp only: limit_price_finite_iff jabs.simps abs_zero jmul.simps mult_zero_left
        jdiv_zero_not_finite not_False_eq_True)
  show "is_finite (computeLimitPrice (Fin c) (Fin q) (Fin p)) \<longleftrightarrow> q \<noteq> 0"
    by (simp add: limit_price_finite_iff jsub_def inf_of_sign_def)
qed

theorem computeLimitPrice_zero_quantity_witness:
  "computeLimitPrice (Fin 200) (Fin 0) (Fin 50) = PInf \<and>
   computeLimitPrice (Fin 0) (Fin 0) (Fin 50) = NaN \<and>
   computeLimitPrice (Fin 200) (Fin 0) (Fin 150) = PInf \<and>
   computeLimitPrice (Fin (- 200)) (Fin 0) (Fin 150) = NInf \<and>
   \<not> is_finite (computeLimitPrice (Fin 200) (Fin 0) (Fin 50)) \<and>
   is_finite (computeLimitPrice (Fin 200) (Fin 1) (Fin 50))"
  using computeLimitPrice_zero_quantity [of "Fin 200" "Fin 50" 200 1 50]
  by (simp add: computeLimitPrice_def Let_def jsub_def inf_of_sign_def math_round_def)



section \<open>Classification\<close>

text \<open>
  C1. In the 4-leg branch of \<open>identifyStrategyName\<close> the call strikes and the put strikes
  are to be sorted in numeric ascending order. The source calls \<open>sort()\<close> without a
  comparator, which orders the strikes as strings: the put strikes 95 and 100 of an iron
  butterfly 95 / 100 / 105 come out as 100, 95. The strike shared by the puts and the
  calls is then missed and the legs are named "Iron Condor", although in numeric ascending
  order the lowest call strike is the highest put strike.
\<close>

theorem identifyStrategyName_sorts_strikes_as_strings:
  "sort_default (map strikePrice (filter (\<lambda>l. callPut l = Some ''PUT'') butterflyLegs))
     = [Some 100, Some 95] \<and>
   identifyStrategyName butterflyLegs = Some ''Iron Condor'' \<and>
   sort [100, 105 :: rat] ! 0 = sort [95, 100] ! 1"
  by (simp add: identifyStrategyName_def butterflyLegs_def optionLeg_def makePosition_def
      sort_default_def sort_by_def template_num_def number_to_string_def nat_digits.simps
      digit_char_def)

section \<open>Strategy rows\<close>

lemma foldl_plus_sum_list:
  "foldl (\<lambda>s l. s + f l) a xs = a + sum_list (map f xs)" for a :: rat
  by (induction xs arbitrary: a) (simp_all add: add.assoc)

lemma strategyQty_abs: "\<bar>strategyQty l0 name cost\<bar> = \<bar>quantity l0\<bar>"
  by (simp add: strategyQty_def Let_def)

lemma buildStrategyRow_Cons:
  "\<exists>row. buildStrategyRow (l0 # rest) name = Inr row \<and>
     quantity row = strategyQty l0 name (sum_list (map totalCost (l0 # rest))) \<and>
     totalCost row = sum_list (map totalCost (l0 # rest)) \<and>
     legCount row = Some (length (l0 # rest)) \<and>
     u_legs row = Some (l0 # rest) \<and>
     strategyName row = Some name"
  by (simp add: Let_def foldl_plus_sum_list Position.defs DisplayRow.defs)

text \<open>
  C5. The quantity of the row built for a group of legs has the magnitude of the first
  leg's quantity. For "Put Vertical", "Call Vertical" and "Box Spread" it is that magnitude
  when the summed \<open>totalCost\<close> is at least 0 and its negation otherwise; for every other
  strategy name it is the magnitude itself.
\<close>

theorem buildStrategyRow_quantity:
  "ls \<noteq> [] \<Longrightarrow>
   \<exists>row. buildStrategyRow ls name = Inr row \<and>
     \<bar>quantity row\<bar> = \<bar>quantity (hd ls)\<bar> \<and>
     totalCost row = sum_list (map totalCost ls) \<and>
     (if name = ''Put Vertical'' \<or> name = ''Call Vertical'' \<or> name = ''Box Spread''
      then quantity row =
             (if sum_list (map totalCost ls) \<ge> 0 then \<bar>quantity (hd ls)\<bar>
              else - \<bar>quantity (hd ls)\<bar>)
      else quantity row = \<bar>quantity (hd ls)\<bar>)"
proof -
  assume "ls \<noteq> []"
  then obtain l0 rest where ls: "ls = l0 # rest"
    by (cases ls) auto
  obtain row where row: "buildStrategyRow (l0 # rest) name = Inr row"
    "quantity row = strategyQty l0 name (sum_list (map totalCost (l0 # rest)))"
    "totalCost row = sum_list (map totalCost (l0 # rest))"
    using buildStrategyRow_Cons [of l0 rest name] by blast
  have "\<bar>quantity row\<bar> = \<bar>quantity l0\<bar>"
    by (simp only: row(2) strategyQty_abs)
  moreover have "name = ''Put Vertical'' \<or> name = ''Call Vertical'' \<or> name = ''Box Spread'' \<Longrightarrow>
      quantity row = (if sum_list (map totalCost (l0 # rest)) \<ge> 0 then \<bar>quantity l0\<bar>
                      else - \<bar>quantity l0\<bar>)"
    by (simp only: row(2) strategyQty_def Let_def if_True)
  moreover have "\<not> (name = ''Put Vertical'' \<or> name = ''Call Vertical'' \<or> name = ''Box Spread'') \<Longrightarrow>
      quantity row = \<bar>quantity l0\<bar>"
    by (simp only: row(2) strategyQty_def Let_def if_False)
  ultimately show ?thesis
    using row(1,3) unfolding ls by (intro exI [of _ row]) (simp only: list.sel if_split, blast)
qed

theorem buildStrategyRow_quantity_witness:
  "boxLegs \<noteq> [] \<and>
   (case buildStrategyRow boxLegs ''Box Spread'' of
      Inr row \<Rightarrow> quantity row = - 1 \<and> totalCost row = - 450
    | Inl e \<Rightarrow> False) \<and>
   (case buildStrategyRow boxLegs ''Iron Condor'' of
      Inr row \<Rightarrow> quantity row = 1
    | Inl e \<Rightarrow> False)"
proof -
  have ne: "boxLegs \<noteq> []"
    by (simp add: boxLegs_def)
  have tc: "sum_list (map totalCost boxLegs) = - 450"
    by (simp add: boxLegs_def optionLeg_def)
  have q: "quantity (hd boxLegs) = - 1"
    by (simp add: boxLegs_def optionLeg_def)
  obtain r1 where r1: "buildStrategyRow boxLegs ''Box Spread'' = Inr r1"
    "quantity r1 = - 1" "totalCost r1 = - 450"
    using buildStrategyRow_quantity [OF ne, of "''Box Spread''"] by (auto simp add: tc q)
  obtain r2 where r2: "buildStrategyRow boxLegs ''Iron Condor'' = Inr r2" "quantity r2 = 1"
    using buildStrategyRow_quantity [OF ne, of "''Iron Condor''"] by (auto simp add: tc q)
  show ?thesis
    by (simp add: ne r1 r2)
qed

section \<open>Grouping\<close>

lemma identifyStrategyName_length:
  "identifyStrategyName ls = Some name \<Longrightarrow> length ls = 2 \<or> length ls = 4"
  by (simp add: identifyStrategyName_def Let_def split: if_splits)

lemma rowLegs_singleRow [simp]: "rowLegs (singleRow p) = [p]"
  by (simp add: rowLegs_def singleRow_def Position.defs DisplayRow.defs)

lemma rowLegCount_singleRow [simp]: "rowLegCount (singleRow p) = 1"
  by (simp add: rowLegCount_def singleRow_def Position.defs DisplayRow.defs)

lemma buildStrategyRow_legs:
  "ls \<noteq> [] \<Longrightarrow>
   \<exists>row. buildStrategyRow ls name = Inr row \<and> rowLegs row = ls \<and> rowLegCount row = length ls"
proof -
  assume "ls \<noteq> []"
  then obtain l0 rest where ls: "ls = l0 # rest"
    by (cases ls) auto
  obtain row where "buildStrategyRow (l0 # rest) name = Inr row"
    "legCount row = Some (length (l0 # rest))" "u_legs row = Some (l0 # rest)"
    using buildStrategyRow_Cons [of l0 rest name] by blast
  then show ?thesis
    unfolding ls by (intro exI [of _ row]) (simp add: rowLegs_def rowLegCount_def)
qed

lemma trySplitIntoPairs_four:
  "trySplitIntoPairs [l0, l1, l2, l3] =
     (case (identifyStrategyName [l0, l1], identifyStrategyName [l2, l3]) of
        (Some n1, Some n2) \<Rightarrow> Some ([l0, l1], n1, [l2, l3], n2)
      | _ \<Rightarrow>
        (case (identifyStrategyName [l0, l2], identifyStrategyName [l1, l3]) of
           (Some n1, Some n2) \<Rightarrow> Some ([l0, l2], n1, [l1, l3], n2)
         | _ \<Rightarrow>
           (case (identifyStrategyName [l0, l3], identifyStrategyName [l1, l2]) of
              (Some n1, Some n2) \<Rightarrow> Some ([l0, l3], n1, [l1, l2], n2)
            | _ \<Rightarrow> None)))"
  by (simp add: trySplitIntoPairs_def Let_def split: option.splits)

lemma length_four: "length ls = 4 \<Longrightarrow> \<exists>l0 l1 l2 l3. ls = [l0, l1, l2, l3]"
  by (cases ls; simp; cases "tl ls"; simp; cases "tl (tl ls)"; simp; cases "tl (tl (tl ls))"; simp)

lemma trySplitIntoPairs_Some:
  assumes "trySplitIntoPairs ls = Some (p1, n1, p2, n2)"
  shows "mset (p1 @ p2) = mset ls \<and> length p1 = 2 \<and> length p2 = 2 \<and> length ls = 4"
proof -
  have len: "length ls = 4"
    using assms by (simp add: trySplitIntoPairs_def split: if_splits)
  then obtain l0 l1 l2 l3 where ls: "ls = [l0, l1, l2, l3]"
    using length_four by blast
  show ?thesis
    using assms unfolding ls trySplitIntoPairs_four
    by (auto split: option.splits)
qed


lemma bucketRows_rows:
  "\<exists>rs. bucketRows ls = Inr rs \<and> mset (concat (map rowLegs rs)) = mset ls \<and>
     sum_list (map rowLegCount rs) = length ls \<and> (\<forall>r\<in>set rs. rowLegs r \<noteq> [])"
proof (cases "length ls = 1")
  case True
  then obtain l where "ls = [l]"
    by (cases ls) auto
  then show ?thesis
    by (simp add: bucketRows_def)
next
  case one: False
  show ?thesis
  proof (cases "identifyStrategyName ls")
    case (Some name)
    then have "ls \<noteq> []"
      using identifyStrategyName_length by fastforce
    then obtain row where "buildStrategyRow ls name = Inr row" "rowLegs row = ls"
      "rowLegCount row = length ls"
      using buildStrategyRow_legs by blast
    then show ?thesis
      using one Some \<open>ls \<noteq> []\<close> by (simp add: bucketRows_def)
  next
    case None
    show ?thesis
    proof (cases "trySplitIntoPairs ls")
      case split: None
      have "concat (map rowLegs (map singleRow ls)) = ls"
        by (induction ls) simp_all
      moreover have "sum_list (map rowLegCount (map singleRow ls)) = length ls"
        by (induction ls) simp_all
      ultimately show ?thesis
        using one None split by (simp add: bucketRows_def)
    next
      case (Some quad)
      obtain p1 n1 p2 n2 where quad: "quad = (p1, n1, p2, n2)"
        by (cases quad) auto
      have sp: "mset (p1 @ p2) = mset ls" "length p1 = 2" "length p2 = 2" "length ls = 4"
        using trySplitIntoPairs_Some Some quad by blast+
      have ne: "p1 \<noteq> []" "p2 \<noteq> []"
        using sp(2,3) by auto
      obtain r1 where r1: "buildStrategyRow p1 n1 = Inr r1" "rowLegs r1 = p1"
        "rowLegCount r1 = length p1"
        using buildStrategyRow_legs [OF ne(1)] by blast
      obtain r2 where r2: "buildStrategyRow p2 n2 = Inr r2" "rowLegs r2 = p2"
        "rowLegCount r2 = length p2"
        using buildStrategyRow_legs [OF ne(2)] by blast
      have "bucketRows ls = Inr [r1, r2]"
        using one None Some quad r1(1) r2(1) by (simp add: bucketRows_def)
      then show ?thesis
        using r1(2,3) r2(2,3) sp ne by simp
    qed
  qed
qed

lemma bucketsRows_rows:
  "\<exists>rs. bucketsRows bs = Inr rs \<and> mset (concat (map rowLegs rs)) = mset (concat bs) \<and>
     sum_list (map rowLegCount rs) = length (concat bs) \<and> (\<forall>r\<in>set rs. rowLegs r \<noteq> [])"
proof (induction bs)
  case Nil
  show ?case by simp
next
  case (Cons ls bs)
  obtain rs1 where rs1: "bucketRows ls = Inr rs1" "mset (concat (map rowLegs rs1)) = mset ls"
    "sum_list (map rowLegCount rs1) = length ls" "\<forall>r\<in>set rs1. rowLegs r \<noteq> []"
    using bucketRows_rows by blast
  obtain rs2 where rs2: "bucketsRows bs = Inr rs2"
    "mset (concat (map rowLegs rs2)) = mset (concat bs)"
    "sum_list (map rowLegCount rs2) = length (concat bs)" "\<forall>r\<in>set rs2. rowLegs r \<noteq> []"
    using Cons.IH by blast
  show ?case
    using rs1 rs2 by (intro exI [of _ "rs1 @ rs2"]) auto
qed

lemma map_push_mset:
  "mset (concat (map snd (map_push k p m))) = mset (concat (map snd m)) + {#p#}"
  by (induction k p m rule: map_push.induct) simp_all

lemma foldl_groupStep_standalones:
  "snd (foldl groupStep (m, s) ps) = s @ filter (\<lambda>p. type p \<noteq> ''OPTN'') ps"
  by (induction ps arbitrary: m s) (simp_all add: groupStep_def)

lemma foldl_groupStep_mset:
  "mset (concat (map snd (fst (foldl groupStep (m, s) ps)))) =
     mset (concat (map snd m)) + mset (filter (\<lambda>p. type p = ''OPTN'') ps)"
  by (induction ps arbitrary: m s) (simp_all add: groupStep_def map_push_mset)

text \<open>
  C2. Every input position is a leg of exactly one emitted row, and the \<open>legCount\<close> of
  the emitted rows (1 for a single-leg row) adds up to the number of input positions.
\<close>

theorem groupIntoStrategies_partition:
  "\<exists>rs. groupIntoStrategies ps = Inr rs \<and>
     mset (concat (map rowLegs rs)) = mset ps \<and>
     sum_list (map rowLegCount rs) = length ps"
proof -
  obtain m s where fold: "foldl groupStep ([], []) ps = (m, s)"
    by (cases "foldl groupStep ([], []) ps") auto
  have s: "s = filter (\<lambda>p. type p \<noteq> ''OPTN'') ps"
    using foldl_groupStep_standalones [of "[]" "[]" ps] fold by simp
  have m: "mset (concat (map snd m)) = mset (filter (\<lambda>p. type p = ''OPTN'') ps)"
    using foldl_groupStep_mset [of "[]" "[]" ps] fold by simp
  obtain rs where rs: "bucketsRows (map snd m) = Inr rs"
    "mset (concat (map rowLegs rs)) = mset (concat (map snd m))"
    "sum_list (map rowLegCount rs) = length (concat (map snd m))"
    using bucketsRows_rows by blast
  have legs_s: "concat (map rowLegs (map singleRow s)) = s"
    by (induction s) simp_all
  have count_s: "sum_list (map rowLegCount (map singleRow s)) = length s"
    by (induction s) simp_all
  have all: "mset s + mset (concat (map snd m)) = mset ps"
    unfolding s m by (induction ps) simp_all
  have "groupIntoStrategies ps = Inr (map singleRow s @ rs)"
    by (simp add: groupIntoStrategies_def fold rs(1))
  moreover have "mset (concat (map rowLegs (map singleRow s @ rs))) = mset ps"
    using legs_s rs(2) all by simp
  moreover have "sum_list (map rowLegCount (map singleRow s @ rs)) = length ps"
  proof -
    have "length s + length (concat (map snd m)) = length ps"
      using all by (metis size_mset size_union)
    then show ?thesis
      using count_s rs(3) by simp
  qed
  ultimately show ?thesis
    by blast
qed

theorem groupIntoStrategies_partition_witness:
  "length mixedPositions = 4 \<and>
   (case groupIntoStrategies mixedPositions of
      Inr rs \<Rightarrow> map rowLegCount rs = [1, 2, 1] \<and>
        map strategyName rs = [Some ''Equity'', Some ''Put Vertical'', Some ''Call'']
    | Inl e \<Rightarrow> False)"
  using groupIntoStrategies_partition [of mixedPositions]
  by (simp add: groupIntoStrategies_def groupStep_def groupKey_def bucketRows_def
      identifyStrategyName_def oppositeSign_def trySplitIntoPairs_def
      mixedPositions_def optionLeg_def equityPos_def makePosition_def
      rowLegCount_def singleRow_def singleLegName_def Let_def
      template_num_def number_to_string_def nat_digits.simps digit_char_def
      Position.defs DisplayRow.defs)

text \<open>
  C6. A bucket of four legs that is not classified as a whole is split along the first
  of the pairings (0,1)&(2,3), (0,2)&(1,3), (0,3)&(1,2) whose two halves are both
  classified, and one strategy row is emitted for either half; when no pairing has two
  classified halves, the four legs are emitted as four single-leg rows.
\<close>

theorem split_fallback:
  assumes "identifyStrategyName [l0, l1, l2, l3] = None"
  shows "\<exists>rs. bucketRows [l0, l1, l2, l3] = Inr rs \<and>
     (case (identifyStrategyName [l0, l1], identifyStrategyName [l2, l3]) of
        (Some n1, Some n2) \<Rightarrow>
          map Inr rs = [buildStrategyRow [l0, l1] n1, buildStrategyRow [l2, l3] n2]
      | _ \<Rightarrow>
        (case (identifyStrategyName [l0, l2], identifyStrategyName [l1, l3]) of
           (Some n1, Some n2) \<Rightarrow>
             map Inr rs = [buildStrategyRow [l0, l2] n1, buildStrategyRow [l1, l3] n2]
         | _ \<Rightarrow>
           (case (identifyStrategyName [l0, l3], identifyStrategyName [l1, l2]) of
              (Some n1, Some n2) \<Rightarrow>
                map Inr rs = [buildStrategyRow [l0, l3] n1, buildStrategyRow [l1, l2] n2]
            | _ \<Rightarrow> rs = map singleRow [l0, l1, l2, l3])))"
proof -
  have "\<exists>r. buildStrategyRow [a, b] n = Inr r" for a b n
    using buildStrategyRow_Cons [of a "[b]" n] by blast
  then obtain f where f: "\<And>a b n. buildStrategyRow [a, b] n = Inr (f a b n)"
    by metis
  show ?thesis
    using assms
    by (simp add: bucketRows_def trySplitIntoPairs_four f split: option.splits
        del: buildStrategyRow.simps)
qed

theorem split_fallback_witness:
  "identifyStrategyName fourPuts = None \<and>
   (case bucketRows fourPuts of
      Inr rs \<Rightarrow> map strategyName rs = [Some ''Put Vertical'', Some ''Put Vertical''] \<and>
        map rowLegs rs = [take 2 fourPuts, drop 2 fourPuts]
    | Inl e \<Rightarrow> False) \<and>
   identifyStrategyName fourCalls = None \<and>
   bucketRows fourCalls = Inr (map singleRow fourCalls)"
proof -
  have n1: "identifyStrategyName fourPuts = None"
    by (simp add: identifyStrategyName_def fourPuts_def optionLeg_def makePosition_def)
  have n2: "identifyStrategyName fourCalls = None"
    by (simp add: identifyStrategyName_def fourCalls_def optionLeg_def makePosition_def)
  have p: "identifyStrategyName [optionLeg ''PUT'' a 1 x, optionLeg ''PUT'' b (- 1) y]
      = Some ''Put Vertical''" for a b x y
    by (simp add: identifyStrategyName_def oppositeSign_def optionLeg_def)
  have c: "identifyStrategyName [optionLeg ''CALL'' a 1 x, optionLeg ''CALL'' b 1 y] = None"
    for a b x y
    by (simp add: identifyStrategyName_def oppositeSign_def optionLeg_def)
  obtain rs where rs: "bucketRows fourPuts = Inr rs"
    "map Inr rs = [buildStrategyRow (take 2 fourPuts) ''Put Vertical'',
                   buildStrategyRow (drop 2 fourPuts) ''Put Vertical'']"
    using split_fallback [OF n1 [unfolded fourPuts_def]]
    by (auto simp add: fourPuts_def p simp del: buildStrategyRow.simps)
  obtain r1 where r1: "buildStrategyRow (take 2 fourPuts) ''Put Vertical'' = Inr r1"
    "strategyName r1 = Some ''Put Vertical''" "rowLegs r1 = take 2 fourPuts"
    using buildStrategyRow_Cons [of "fourPuts ! 0" "[fourPuts ! 1]" "''Put Vertical''"]
    by (auto simp add: fourPuts_def rowLegs_def simp del: buildStrategyRow.simps)
  obtain r2 where r2: "buildStrategyRow (drop 2 fourPuts) ''Put Vertical'' = Inr r2"
    "strategyName r2 = Some ''Put Vertical''" "rowLegs r2 = drop 2 fourPuts"
    using buildStrategyRow_Cons [of "fourPuts ! 2" "[fourPuts ! 3]" "''Put Vertical''"]
    by (auto simp add: fourPuts_def rowLegs_def simp del: buildStrategyRow.simps)
  have "rs = [r1, r2]"
    using rs(2) unfolding r1(1) r2(1) by (simp add: map_eq_Cons_conv)
  moreover have "bucketRows fourCalls = Inr (map singleRow fourCalls)"
    using split_fallback [OF n2 [unfolded fourCalls_def]]
    by (auto simp add: fourCalls_def c simp del: buildStrategyRow.simps)
  ultimately show ?thesis
    using n1 n2 rs(1) r1(2,3) r2(2,3) by simp
qed

lemma first_seen_Nil [simp]: "first_seen [] = []"
  by (simp add: first_seen_def)

lemma first_seen_snoc:
  "first_seen (xs @ [x]) = (if x \<in> set xs then first_seen xs else first_seen xs @ [x])"
  by (simp add: first_seen_def)

lemma set_first_seen [simp]: "set (first_seen xs) = set xs"
  by (simp add: first_seen_def)

lemma distinct_first_seen [simp]: "distinct (first_seen xs)"
  by (simp add: first_seen_def)

lemma map_push_known:
  "k \<in> set ks \<Longrightarrow> distinct ks \<Longrightarrow>
   map_push k p (map (\<lambda>k'. (k', g k')) ks) =
     map (\<lambda>k'. (k', if k' = k then g k' @ [p] else g k')) ks"
  by (induction ks) auto

lemma map_push_new:
  "k \<notin> set ks \<Longrightarrow>
   map_push k p (map (\<lambda>k'. (k', g k')) ks) = map (\<lambda>k'. (k', g k')) ks @ [(k, [p])]"
  by (induction ks) auto

lemma map_push_keyedBuckets:
  "map_push (groupKey p) p (keyedBuckets xs) = keyedBuckets (xs @ [p])"
proof (cases "groupKey p \<in> set (map groupKey xs)")
  case True
  then have "map_push (groupKey p) p (keyedBuckets xs) =
      map (\<lambda>k'. (k', if k' = groupKey p then filter (\<lambda>q. groupKey q = k') xs @ [p]
                      else filter (\<lambda>q. groupKey q = k') xs))
        (first_seen (map groupKey xs))"
    unfolding keyedBuckets_def by (intro map_push_known) simp_all
  also have "\<dots> = keyedBuckets (xs @ [p])"
    using True by (auto simp add: keyedBuckets_def first_seen_snoc)
  finally show ?thesis .
next
  case False
  then have "map_push (groupKey p) p (keyedBuckets xs) = keyedBuckets xs @ [(groupKey p, [p])]"
    unfolding keyedBuckets_def by (intro map_push_new) simp
  moreover have "\<forall>q\<in>set xs. groupKey q \<noteq> groupKey p"
    using False by (metis image_eqI list.set_map)
  then have "filter (\<lambda>q. groupKey q = groupKey p) xs = []"
    by (simp add: filter_empty_conv)
  ultimately show ?thesis
    using False by (auto simp add: keyedBuckets_def first_seen_snoc)
qed

lemma foldl_groupStep_buckets:
  "fst (foldl groupStep (keyedBuckets xs, s) ps) =
     keyedBuckets (xs @ filter (\<lambda>p. type p = ''OPTN'') ps)"
  by (induction ps arbitrary: xs s) (simp_all add: groupStep_def map_push_keyedBuckets)


lemma bucketRows_legs_subset:
  assumes "bucketRows ls = Inr rs" "r \<in> set rs"
  shows "rowLegs r \<noteq> [] \<and> set (rowLegs r) \<subseteq> set ls"
proof -
  obtain rs' where rs': "bucketRows ls = Inr rs'" "mset (concat (map rowLegs rs')) = mset ls"
    "\<forall>r\<in>set rs'. rowLegs r \<noteq> []"
    using bucketRows_rows by blast
  then have eq: "rs' = rs"
    using assms(1) by simp
  have "set (concat (map rowLegs rs)) = set ls"
    using rs'(2) unfolding eq by (metis set_mset_mset)
  then show ?thesis
    using assms(2) rs'(3) unfolding eq by auto
qed

lemma map_bucketRows_rows:
  "\<exists>rss. map bucketRows bs = map Inr rss \<and> bucketsRows bs = Inr (concat rss)"
proof (induction bs)
  case Nil
  show ?case by simp
next
  case (Cons ls bs)
  obtain rs where rs: "bucketRows ls = Inr rs"
    using bucketRows_rows by blast
  obtain rss where rss: "map bucketRows bs = map Inr rss" "bucketsRows bs = Inr (concat rss)"
    using Cons.IH by blast
  show ?case
    using rs rss by (intro exI [of _ "rs # rss"]) simp
qed

lemma keyedBuckets_legs:
  "ls \<in> set (map snd (keyedBuckets ps)) \<Longrightarrow> set ls \<subseteq> set ps"
  by (auto simp add: keyedBuckets_def)

text \<open>
  C9. In the output of \<open>groupIntoStrategies\<close> the rows of the positions that are not of
  type OPTN come first, in input order; the rows of the option legs follow, bucket after
  bucket in the order in which the grouping keys are first seen. Every leg of a row of
  the first part is not an option, every leg of a row of the second part is one.
\<close>

theorem groupIntoStrategies_order:
  "\<exists>rss. map bucketRows (map snd (keyedBuckets (filter (\<lambda>p. type p = ''OPTN'') ps)))
           = map Inr rss \<and>
     groupIntoStrategies ps =
       Inr (map singleRow (filter (\<lambda>p. type p \<noteq> ''OPTN'') ps) @ concat rss) \<and>
     (\<forall>r\<in>set (map singleRow (filter (\<lambda>p. type p \<noteq> ''OPTN'') ps)).
        \<forall>l\<in>set (rowLegs r). type l \<noteq> ''OPTN'') \<and>
     (\<forall>r\<in>set (concat rss). rowLegs r \<noteq> [] \<and> (\<forall>l\<in>set (rowLegs r). type l = ''OPTN''))"
proof -
  let ?optn = "filter (\<lambda>p. type p = ''OPTN'') ps"
  let ?rest = "filter (\<lambda>p. type p \<noteq> ''OPTN'') ps"
  obtain m s where fold: "foldl groupStep ([], []) ps = (m, s)"
    by (cases "foldl groupStep ([], []) ps") auto
  have s: "s = ?rest"
    using foldl_groupStep_standalones [of "[]" "[]" ps] fold by simp
  have "keyedBuckets [] = []"
    by (simp add: keyedBuckets_def)
  then have m: "m = keyedBuckets ?optn"
    using foldl_groupStep_buckets [of "[]" "[]" ps] fold by simp
  obtain rss where rss: "map bucketRows (map snd (keyedBuckets ?optn)) = map Inr rss"
    "bucketsRows (map snd (keyedBuckets ?optn)) = Inr (concat rss)"
    using map_bucketRows_rows by blast
  have out: "groupIntoStrategies ps = Inr (map singleRow ?rest @ concat rss)"
    by (simp add: groupIntoStrategies_def fold rss(2) s m)
  have legs: "rowLegs r \<noteq> [] \<and> (\<forall>l\<in>set (rowLegs r). type l = ''OPTN'')"
    if mem: "r \<in> set (concat rss)" for r
  proof -
    obtain rs where rs: "rs \<in> set rss" "r \<in> set rs"
      using mem by auto
    then obtain i where i: "i < length rss" "rss ! i = rs"
      by (metis in_set_conv_nth)
    have len: "length (map snd (keyedBuckets ?optn)) = length rss"
      using rss(1) by (metis length_map)
    let ?ls = "map snd (keyedBuckets ?optn) ! i"
    have "map bucketRows (map snd (keyedBuckets ?optn)) ! i = map Inr rss ! i"
      using rss(1) by simp
    then have "bucketRows ?ls = Inr rs"
      using i len by simp
    then have "rowLegs r \<noteq> []" "set (rowLegs r) \<subseteq> set ?ls"
      using bucketRows_legs_subset rs(2) by blast+
    moreover have "set ?ls \<subseteq> set ?optn"
      using keyedBuckets_legs [of ?ls ?optn] i(1) len by (metis nth_mem)
    ultimately show ?thesis
      by auto
  qed
  show ?thesis
    using rss(1) out legs by (intro exI [of _ rss]) auto
qed

theorem groupIntoStrategies_order_witness:
  "map type mixedPositions = [''OPTN'', ''EQ'', ''OPTN'', ''OPTN''] \<and>
   map fst (keyedBuckets (filter (\<lambda>p. type p = ''OPTN'') mixedPositions))
     = [''AAPL|30|1700000000|1'', ''AAPL|30|1700000000|2''] \<and>
   (case groupIntoStrategies mixedPositions of
      Inr rs \<Rightarrow>
        map rowLegs rs =
          [[mixedPositions ! 1], [mixedPositions ! 0, mixedPositions ! 3], [mixedPositions ! 2]]
    | Inl e \<Rightarrow> False)"
  using groupIntoStrategies_order [of mixedPositions]
  by (simp add: groupIntoStrategies_def groupStep_def groupKey_def bucketRows_def
      identifyStrategyName_def oppositeSign_def trySplitIntoPairs_def
      keyedBuckets_def first_seen_def
      mixedPositions_def optionLeg_def equityPos_def makePosition_def
      rowLegs_def singleRow_def singleLegName_def Let_def
      template_num_def number_to_string_def nat_digits.simps digit_char_def
      Position.defs DisplayRow.defs)

section \<open>Exit labels\<close>



section \<open>Reconciliation\<close>

lemma matchStep_acc:
  "matchStep e (acc, pool) row =
     (acc @ fst (matchStep e ([], pool) row), snd (matchStep e ([], pool) row))"
  by (simp add: matchStep_def Let_def split: option.splits)

lemma foldl_matchStep_acc:
  "foldl (matchStep e) (acc, pool) rs =
     (acc @ fst (foldl (matchStep e) ([], pool) rs), snd (foldl (matchStep e) ([], pool) rs))"
proof (induction rs arbitrary: acc pool)
  case Nil
  show ?case by simp
next
  case (Cons r rs)
  obtain a p where step: "matchStep e ([], pool) r = (a, p)"
    by (cases "matchStep e ([], pool) r") auto
  have "matchStep e (acc, pool) r = (acc @ a, p)"
    using matchStep_acc [of e acc pool r] step by simp
  then show ?case
    using Cons.IH [of "acc @ a" p] Cons.IH [of a p] step by simp
qed

lemma matchOrdersToRows_append:
  "matchOrdersToRows e (xs @ ys) os =
     (let m1 = matchOrdersToRows e xs os;
          m2 = matchOrdersToRows e ys (unmatchedOrders m1)
      in \<lparr>rows = rows m1 @ rows m2, unmatchedOrders = unmatchedOrders m2\<rparr>)"
proof -
  obtain a p where xs: "foldl (matchStep e) ([], os) xs = (a, p)"
    by (cases "foldl (matchStep e) ([], os) xs") auto
  obtain b q where ys: "foldl (matchStep e) ([], p) ys = (b, q)"
    by (cases "foldl (matchStep e) ([], p) ys") auto
  have "foldl (matchStep e) ([], os) (xs @ ys) = (a @ b, q)"
    using foldl_matchStep_acc [of e a p ys] xs ys by simp
  then show ?thesis
    using xs ys by (simp add: matchOrdersToRows_def Let_def)
qed

lemma matchOrdersToRows_Cons:
  "matchOrdersToRows e (r # rs) os =
     (let m1 = matchOrdersToRows e [r] os;
          m2 = matchOrdersToRows e rs (unmatchedOrders m1)
      in \<lparr>rows = rows m1 @ rows m2, unmatchedOrders = unmatchedOrders m2\<rparr>)"
  using matchOrdersToRows_append [of e "[r]" rs os] by simp

text \<open>
  C3 (as the code has it). A row that carries no leg list (\<open>_legs\<close> absent) never matches
  an order: it is returned as it is, and the rows after it see the pool of orders that
  the rows before it left.
\<close>

theorem row_without_legs_never_matches:
  "u_legs row = None \<Longrightarrow>
   matchOrdersToRows e (before @ row # after) os =
     (let m1 = matchOrdersToRows e before os;
          m2 = matchOrdersToRows e after (unmatchedOrders m1)
      in \<lparr>rows = rows m1 @ row # rows m2, unmatchedOrders = unmatchedOrders m2\<rparr>)"
proof -
  assume none: "u_legs row = None"
  have one: "matchOrdersToRows e [row] pool = \<lparr>rows = [row], unmatchedOrders = pool\<rparr>"
    for pool
    using none by (simp add: matchOrdersToRows_def matchStep_def)
  have rest: "matchOrdersToRows e (row # after) pool =
      \<lparr>rows = row # rows (matchOrdersToRows e after pool),
         unmatchedOrders = unmatchedOrders (matchOrdersToRows e after pool)\<rparr>" for pool
    using matchOrdersToRows_Cons [of e row after pool] by (simp add: one Let_def)
  show ?thesis
    using matchOrdersToRows_append [of e before "row # after" os]
    by (simp add: rest Let_def)
qed

theorem row_without_legs_never_matches_witness:
  "u_legs ((singleRow equityPos)\<lparr>u_legs := None\<rparr>) = None \<and>
   matchOrdersToRows (utcEnv 2026 11 2)
     [singleRow longPut, (singleRow equityPos)\<lparr>u_legs := None\<rparr>] [sellShares]
   = \<lparr>rows = [singleRow longPut, (singleRow equityPos)\<lparr>u_legs := None\<rparr>],
      unmatchedOrders = [sellShares]\<rparr>"
proof -
  have none: "u_legs ((singleRow equityPos)\<lparr>u_legs := None\<rparr>) = None"
    by simp
  have "\<not> isExitOrder (utcEnv 2026 11 2) [longPut] sellShares"
    by (simp add: isExitOrder_def isExitLeg_def legKey_def sort_by_def sellShares_def
        exampleOrder_def exampleOrderLeg_def longPut_def makePosition_def)
  then have "matchOrdersToRows (utcEnv 2026 11 2) [singleRow longPut] [sellShares]
      = \<lparr>rows = [singleRow longPut], unmatchedOrders = [sellShares]\<rparr>"
    by (simp add: matchOrdersToRows_def matchStep_def singleRow_def Position.defs
        DisplayRow.defs)
  then show ?thesis
    using row_without_legs_never_matches [OF none, of "utcEnv 2026 11 2"
        "[singleRow longPut]" "[]" "[sellShares]"] none
    by (simp add: Let_def matchOrdersToRows_def del: DisplayRow.simps)
qed

text \<open>
  C3 (as stated) fails: the row of an equity position has no option leg, and an order to
  sell the shares is matched to it.
\<close>

theorem equity_row_matches_counterexample:
  "map type (rowLegs (singleRow equityPos)) = [''EQ''] \<and>
   matchOrdersToRows (utcEnv 2026 11 2) [singleRow equityPos] [sellShares]
   = \<lparr>rows = [(singleRow equityPos)\<lparr>exitLabel := Some (Some ''10% @165.00''),
                 exitOrderId := Some (Some 7)\<rparr>],
      unmatchedOrders = []\<rparr>"
proof -
  have t: "map type (rowLegs (singleRow equityPos)) = [''EQ'']"
    by (simp add: equityPos_def makePosition_def)
  have m: "isExitOrder (utcEnv 2026 11 2) [equityPos] sellShares"
    by (simp add: isExitOrder_def isExitLeg_def legKey_def sort_by_def sellShares_def
        exampleOrder_def exampleOrderLeg_def equityPos_def makePosition_def
        computeOrderDte_def EXIT_ACTIONS_LONG_def number_to_string_def nat_digits.simps
        digit_char_def)
  have l: "computeExitLabel sellShares (singleRow equityPos) = ''10% @165.00''"
    by (simp add: sellShares_def exampleOrder_def singleRow_def equityPos_def
        makePosition_def Position.defs DisplayRow.defs toFixed2_def computeExitLabel_def
        math_round_def number_to_string_def nat_digits.simps digit_char_def Let_def)
  have u: "u_legs (singleRow equityPos) = Some [equityPos]"
    by (simp add: singleRow_def Position.defs DisplayRow.defs)
  have i: "orderId sellShares = Some 7"
    by (simp add: sellShares_def exampleOrder_def)
  show ?thesis
    using t by (simp add: matchOrdersToRows_def matchStep_def u m l i)
qed

lemma set_insort_by [simp]: "set (insort_by le x xs) = insert x (set xs)"
  by (induction xs) auto

lemma set_sort_by [simp]: "set (sort_by le xs) = set xs"
  unfolding sort_by_def by (induction xs) simp_all

lemma isExitLeg_cong:
  "computeOrderDte e1 ol = computeOrderDte e2 ol \<Longrightarrow> isExitLeg e1 (ol, pl) = isExitLeg e2 (ol, pl)"
  by (simp add: isExitLeg_def)

lemma isExitOrder_cong:
  assumes "localeCompare e1 = localeCompare e2"
    and "\<forall>l\<in>set (Order.legs ord). computeOrderDte e1 l = computeOrderDte e2 l"
  shows "isExitOrder e1 ls ord = isExitOrder e2 ls ord"
proof -
  let ?so = "sort_by (\<lambda>a b. localeCompare e2 (OrderLeg.symbol a) (OrderLeg.symbol b) \<le> 0)
               (Order.legs ord)"
  let ?sp = "sort_by (\<lambda>a b. localeCompare e2 (symbol a) (symbol b) \<le> 0) ls"
  have "isExitLeg e1 z = isExitLeg e2 z" if "z \<in> set (zip ?so ?sp)" for z
  proof -
    obtain ol pl where z: "z = (ol, pl)"
      by (cases z) auto
    then have "ol \<in> set (Order.legs ord)"
      using that set_zip_leftD [of ol pl ?so ?sp] by simp
    then show ?thesis
      unfolding z using assms(2) by (intro isExitLeg_cong) blast
  qed
  then have "list_all (isExitLeg e1) (zip ?so ?sp) = list_all (isExitLeg e2) (zip ?so ?sp)"
    by (simp add: list_all_iff)
  then show ?thesis
    by (simp add: isExitOrder_def assms(1) Let_def)
qed

lemma findIndex_cong:
  "\<forall>x\<in>set xs. P x = Q x \<Longrightarrow> findIndex P xs = findIndex Q xs"
  by (induction xs) simp_all

lemma findIndex_less: "findIndex P xs = Some i \<Longrightarrow> i < length xs"
  by (induction xs arbitrary: i) (auto split: if_splits)

lemma matchStep_pool_subset: "set (snd (matchStep e (acc, pool) row)) \<subseteq> set pool"
proof -
  have "set (take i pool @ drop (Suc i) pool) \<subseteq> set pool" for i
    using set_take_subset [of i pool] set_drop_subset [of "Suc i" pool] by auto
  then show ?thesis
    by (simp add: matchStep_def Let_def split: option.splits)
qed

lemma matchStep_cong:
  assumes "localeCompare e1 = localeCompare e2"
    and "\<forall>ord\<in>set pool. \<forall>l\<in>set (Order.legs ord). computeOrderDte e1 l = computeOrderDte e2 l"
  shows "matchStep e1 (acc, pool) row = matchStep e2 (acc, pool) row"
proof (cases "u_legs row")
  case None
  then show ?thesis
    by (simp add: matchStep_def)
next
  case (Some ls)
  have "findIndex (isExitOrder e1 ls) pool = findIndex (isExitOrder e2 ls) pool"
  proof (intro findIndex_cong ballI)
    fix ord
    assume "ord \<in> set pool"
    then have "\<forall>l\<in>set (Order.legs ord). computeOrderDte e1 l = computeOrderDte e2 l"
      using assms(2) by blast
    then show "isExitOrder e1 ls ord = isExitOrder e2 ls ord"
      using assms(1) by (rule isExitOrder_cong [rotated])
  qed
  then show ?thesis
    using Some by (simp add: matchStep_def)
qed

lemma foldl_matchStep_cong:
  assumes "localeCompare e1 = localeCompare e2"
  shows "\<forall>ord\<in>set pool. \<forall>l\<in>set (Order.legs ord). computeOrderDte e1 l = computeOrderDte e2 l \<Longrightarrow>
    foldl (matchStep e1) (acc, pool) rs = foldl (matchStep e2) (acc, pool) rs"
proof (induction rs arbitrary: acc pool)
  case Nil
  show ?case by simp
next
  case (Cons r rs)
  obtain a p where step: "matchStep e2 (acc, pool) r = (a, p)"
    by (cases "matchStep e2 (acc, pool) r") auto
  have same: "matchStep e1 (acc, pool) r = (a, p)"
    using matchStep_cong [OF assms Cons.prems] step by simp
  have "set p \<subseteq> set pool"
    using matchStep_pool_subset [of e2 acc pool r] step by simp
  then have "\<forall>ord\<in>set p. \<forall>l\<in>set (Order.legs ord). computeOrderDte e1 l = computeOrderDte e2 l"
    using Cons.prems by blast
  then show ?case
    using Cons.IH [of p a] step same by simp
qed

text \<open>
  C4 (as the code has it). The result of \<open>matchOrdersToRows\<close> is determined by the rows,
  the orders, the collation of the host and the days to expiry that \<open>computeOrderDte\<close>
  derives from the current date for the legs of the orders: two runs on the same rows and
  orders agree whenever they agree on the collation and on these days to expiry.
\<close>

theorem matchOrdersToRows_determined_by_dte:
  "localeCompare e1 = localeCompare e2 \<Longrightarrow>
   \<forall>ord\<in>set os. \<forall>l\<in>set (Order.legs ord). computeOrderDte e1 l = computeOrderDte e2 l \<Longrightarrow>
   matchOrdersToRows e1 rs os = matchOrdersToRows e2 rs os"
  using foldl_matchStep_cong [of e1 e2 os "[]" rs] by (simp add: matchOrdersToRows_def)

theorem matchOrdersToRows_determined_by_dte_witness:
  "localeCompare (utcEnv 2026 11 2) =
     localeCompare ((utcEnv 2026 11 2)\<lparr>todayMidnight := utcDateTime 2026 10 2 + 3600000\<rparr>) \<and>
   todayMidnight (utcEnv 2026 11 2) \<noteq>
     todayMidnight ((utcEnv 2026 11 2)\<lparr>todayMidnight := utcDateTime 2026 10 2 + 3600000\<rparr>) \<and>
   map (computeOrderDte (utcEnv 2026 11 2)) (concat (map Order.legs [sellPut])) =
     map (computeOrderDte
            ((utcEnv 2026 11 2)\<lparr>todayMidnight := utcDateTime 2026 10 2 + 3600000\<rparr>))
       (concat (map Order.legs [sellPut])) \<and>
   matchOrdersToRows (utcEnv 2026 11 2) [singleRow longPut] [sellPut] =
   matchOrdersToRows ((utcEnv 2026 11 2)\<lparr>todayMidnight := utcDateTime 2026 10 2 + 3600000\<rparr>)
     [singleRow longPut] [sellPut]"
proof -
  let ?e2 = "(utcEnv 2026 11 2)\<lparr>todayMidnight := utcDateTime 2026 10 2 + 3600000\<rparr>"
  have lc: "localeCompare (utcEnv 2026 11 2) = localeCompare ?e2"
    by simp
  have today: "todayMidnight (utcEnv 2026 11 2) \<noteq> todayMidnight ?e2"
    by (simp add: utcEnv_def)
  have dte: "\<forall>ord\<in>set [sellPut]. \<forall>l\<in>set (Order.legs ord).
      computeOrderDte (utcEnv 2026 11 2) l = computeOrderDte ?e2 l"
    by (simp add: sellPut_def exampleOrder_def exampleOrderLeg_def computeOrderDte_def
        utcEnv_def utcDateTime_def days_from_civil_def math_round_def Let_def)
  then have dtes: "map (computeOrderDte (utcEnv 2026 11 2)) (concat (map Order.legs [sellPut]))
      = map (computeOrderDte ?e2) (concat (map Order.legs [sellPut]))"
    by simp
  show ?thesis
    using matchOrdersToRows_determined_by_dte [OF lc dte, of "[singleRow longPut]"] lc today dtes
    by blast
qed

text \<open>
  C4 (as stated) fails: the same row and the same order are matched on 2 November 2026,
  when the order leg is 46 days from expiry as the position says, and are not matched a
  day later.
\<close>

theorem matchOrdersToRows_depends_on_date_counterexample:
  "matchOrdersToRows (utcEnv 2026 11 2) [singleRow longPut] [sellPut]
     = \<lparr>rows = [(singleRow longPut)\<lparr>exitLabel := Some (Some ''50% @3.00''),
                   exitOrderId := Some (Some 7)\<rparr>],
        unmatchedOrders = []\<rparr> \<and>
   matchOrdersToRows (utcEnv 2026 11 3) [singleRow longPut] [sellPut]
     = \<lparr>rows = [singleRow longPut], unmatchedOrders = [sellPut]\<rparr> \<and>
   matchOrdersToRows (utcEnv 2026 11 2) [singleRow longPut] [sellPut]
     \<noteq> matchOrdersToRows (utcEnv 2026 11 3) [singleRow longPut] [sellPut]"
proof -
  have d1: "computeOrderDte (utcEnv 2026 11 2) (hd (Order.legs sellPut)) = Some 46"
    by (simp add: sellPut_def exampleOrder_def exampleOrderLeg_def computeOrderDte_def
        utcEnv_def utcDateTime_def days_from_civil_def math_round_def Let_def)
  have d2: "computeOrderDte (utcEnv 2026 11 3) (hd (Order.legs sellPut)) = Some 45"
    by (simp add: sellPut_def exampleOrder_def exampleOrderLeg_def computeOrderDte_def
        utcEnv_def utcDateTime_def days_from_civil_def math_round_def Let_def)
  have legs: "Order.legs sellPut = [hd (Order.legs sellPut)]"
    by (simp add: sellPut_def exampleOrder_def)
  have key: "legKey (OrderLeg.symbol (hd (Order.legs sellPut)))
        (orderedQuantity (hd (Order.legs sellPut)))
        (OrderLeg.strikePrice (hd (Order.legs sellPut))) d
      = legKey (symbol longPut) \<bar>quantity longPut\<bar> (strikePrice longPut) (dte longPut)
      \<longleftrightarrow> d = Some 46" if "d = Some 46 \<or> d = Some 45" for d
    using that
    by (auto simp add: legKey_def sellPut_def exampleOrder_def exampleOrderLeg_def longPut_def
        makePosition_def number_to_string_def nat_digits.simps digit_char_def)
  have act: "quantity longPut > 0" "orderAction (hd (Order.legs sellPut)) = ''SELL_CLOSE''"
    by (simp_all add: longPut_def makePosition_def sellPut_def exampleOrder_def
        exampleOrderLeg_def)
  have m1: "isExitOrder (utcEnv 2026 11 2) [longPut] sellPut"
    using key [of "Some 46"] act
    by (subst isExitOrder_def, subst legs, subst legs)
      (simp add: isExitLeg_def sort_by_def d1 EXIT_ACTIONS_LONG_def Let_def)
  have m2: "\<not> isExitOrder (utcEnv 2026 11 3) [longPut] sellPut"
    using key [of "Some 45"] act
    by (subst isExitOrder_def, subst legs, subst legs)
      (simp add: isExitLeg_def sort_by_def d2 EXIT_ACTIONS_LONG_def Let_def)
  have l: "computeExitLabel sellPut (singleRow longPut) = ''50% @3.00''"
    by (simp add: sellPut_def exampleOrder_def singleRow_def longPut_def
        makePosition_def Position.defs DisplayRow.defs toFixed2_def computeExitLabel_def
        math_round_def number_to_string_def nat_digits.simps digit_char_def Let_def)
  have u: "u_legs (singleRow longPut) = Some [longPut]"
    by (simp add: singleRow_def Position.defs DisplayRow.defs)
  have i: "orderId sellPut = Some 7"
    by (simp add: sellPut_def exampleOrder_def)
  have r1: "matchOrdersToRows (utcEnv 2026 11 2) [singleRow longPut] [sellPut]
     = \<lparr>rows = [(singleRow longPut)\<lparr>exitLabel := Some (Some ''50% @3.00''),
                   exitOrderId := Some (Some 7)\<rparr>],
        unmatchedOrders = []\<rparr>"
    by (simp add: matchOrdersToRows_def matchStep_def u m1 l i)
  have r2: "matchOrdersToRows (utcEnv 2026 11 3) [singleRow longPut] [sellPut]
     = \<lparr>rows = [singleRow longPut], unmatchedOrders = [sellPut]\<rparr>"
    by (simp add: matchOrdersToRows_def matchStep_def u m2)
  show ?thesis
    unfolding r1 r2 by simp
qed

section \<open>The cases of the test suite\<close>

text \<open>The model returns what strategies.test.ts expects of \<open>identifyStrategyName\<close>.\<close>

lemma test_identifyStrategyName:
  "identifyStrategyName [optionLeg ''PUT'' 190 1 c, optionLeg ''PUT'' 200 (- 1) c]
     = Some ''Put Vertical''"
  "identifyStrategyName [optionLeg ''CALL'' 200 1 c, optionLeg ''CALL'' 210 (- 1) c]
     = Some ''Call Vertical''"
  "identifyStrategyName [optionLeg ''CALL'' 200 1 c, optionLeg ''PUT'' 200 1 c]
     = Some ''Straddle''"
  "identifyStrategyName [optionLeg ''CALL'' 210 1 c, optionLeg ''PUT'' 190 1 c]
     = Some ''Strangle''"
  "identifyStrategyName
     [optionLeg ''CALL'' 190 1 c, optionLeg ''CALL'' 210 (- 1) c,
      optionLeg ''PUT'' 190 (- 1) c, optionLeg ''PUT'' 210 1 c] = Some ''Box Spread''"
  "identifyStrategyName
     [optionLeg ''PUT'' 190 1 c, optionLeg ''PUT'' 200 (- 1) c,
      optionLeg ''CALL'' 200 (- 1) c, optionLeg ''CALL'' 210 1 c] = Some ''Iron Butterfly''"
  "identifyStrategyName
     [optionLeg ''PUT'' 180 1 c, optionLeg ''PUT'' 190 (- 1) c,
      optionLeg ''CALL'' 210 (- 1) c, optionLeg ''CALL'' 220 1 c] = Some ''Iron Condor''"
  "identifyStrategyName
     [optionLeg ''CALL'' 200 1 c, optionLeg ''CALL'' 210 1 c, optionLeg ''CALL'' 220 1 c]
     = None"
  by (simp_all add: identifyStrategyName_def oppositeSign_def optionLeg_def makePosition_def
      sort_default_def sort_by_def template_num_def number_to_string_def nat_digits.simps
      digit_char_def)

text \<open>The credit box spread is one row, "-1 x Box Spread", with spec "$2k".\<close>

lemma test_box_spread:
  "\<exists>row. groupIntoStrategies boxLegs = Inr [row] \<and>
     strategyName row = Some ''Box Spread'' \<and> quantity row = - 1 \<and>
     symbol row = ''-1 x Box Spread'' \<and> spec row = Some ''$2k'' \<and>
     highStrike row = Some 210 \<and> strikeWidth row = Some 20 \<and> legCount row = Some 4"
proof -
  have name: "identifyStrategyName boxLegs = Some ''Box Spread''"
    by (simp add: identifyStrategyName_def boxLegs_def optionLeg_def makePosition_def
      sort_default_def sort_by_def template_num_def number_to_string_def nat_digits.simps
      digit_char_def)
  have key: "map groupKey boxLegs =
      [''AAPL|30|1700000000|1'', ''AAPL|30|1700000000|1'', ''AAPL|30|1700000000|1'',
       ''AAPL|30|1700000000|1'']"
    by (simp add: boxLegs_def optionLeg_def makePosition_def groupKey_def template_num_def
        number_to_string_def nat_digits.simps digit_char_def)
  have opt: "map type boxLegs = [''OPTN'', ''OPTN'', ''OPTN'', ''OPTN'']"
    by (simp add: boxLegs_def optionLeg_def makePosition_def)
  obtain a b c d where legs: "boxLegs = [a, b, c, d]"
    by (simp add: boxLegs_def)
  have fold: "foldl groupStep ([], []) boxLegs = ([(''AAPL|30|1700000000|1'', boxLegs)], [])"
    using key opt unfolding legs by (simp add: groupStep_def)
  have strikes: "numeric_sort (map (\<lambda>l. case strikePrice l of None \<Rightarrow> 0 | Some k \<Rightarrow> k) boxLegs)
      = [190, 190, 210, 210]"
    by (simp add: numeric_sort_def sort_by_def boxLegs_def optionLeg_def)
  have cost: "foldl (\<lambda>s l. s + totalCost l) 0 boxLegs = - 450"
    by (simp add: boxLegs_def optionLeg_def)
  have q: "quantity (hd boxLegs) = - 1"
    by (simp add: boxLegs_def optionLeg_def)
  have row: "\<exists>row. buildStrategyRow boxLegs ''Box Spread'' = Inr row \<and>
     strategyName row = Some ''Box Spread'' \<and> quantity row = - 1 \<and>
     symbol row = ''-1 x Box Spread'' \<and> spec row = Some ''$2k'' \<and>
     highStrike row = Some 210 \<and> strikeWidth row = Some 20 \<and> legCount row = Some 4"
    using strikes cost q unfolding legs
    by (simp add: Let_def strategyQty_def strategySpec_def math_round_def number_to_string_def
        nat_digits.simps digit_char_def Position.defs DisplayRow.defs)
  then show ?thesis
    using name unfolding groupIntoStrategies_def fold
    by (auto simp add: bucketRows_def legs simp del: buildStrategyRow.simps)
qed

end
